theory Spec2Isabelle
  imports Main
begin

section \<open>The node model\<close>

text \<open>
  The wrapper in \<^verbatim>\<open>json_value.h\<close> reads and writes a \<^verbatim>\<open>rapidjson::Value\<close>.
  A value is null, a boolean, a number, a string (a byte buffer with its length, so it
  may hold the byte 0), an array of values or a list of members (name, value) in
  insertion order.

  The library keeps an integral number in a 64-bit payload together with flags, and sets
  every flag whose type can hold the number: \<^verbatim>\<open>IsInt()\<close> holds exactly when the
  number fits \<^verbatim>\<open>int32_t\<close>, \<^verbatim>\<open>IsUint()\<close> when it fits \<^verbatim>\<open>uint32_t\<close>,
  \<^verbatim>\<open>IsInt64()\<close> and \<^verbatim>\<open>IsUint64()\<close> likewise, and \<^verbatim>\<open>IsDouble()\<close> only for a
  number stored as a double. An integral number is therefore modelled by its
  mathematical value \<open>n\<close> (stored numbers satisfy \<open>- 2^63 \<le> n < 2^64\<close>), and the
  flags by the ranges. Floating point is not modelled: the payload of a double is a value
  of a type parameter \<open>'d\<close>, and each operation on it is a parameter of the function
  that uses it.
\<close>

datatype 'd node =
    JNull
  | JBool bool
  | JInt int
  | JDouble 'd
  | JString string
  | JArray "'d node list"
  | JObject "(string \<times> 'd node) list"

definition fits_int32 :: "int \<Rightarrow> bool" where
  "fits_int32 n \<longleftrightarrow> - 2147483648 \<le> n \<and> n \<le> 2147483647"

definition fits_uint32 :: "int \<Rightarrow> bool" where
  "fits_uint32 n \<longleftrightarrow> 0 \<le> n \<and> n \<le> 4294967295"

definition fits_int64 :: "int \<Rightarrow> bool" where
  "fits_int64 n \<longleftrightarrow> - 9223372036854775808 \<le> n \<and> n \<le> 9223372036854775807"

definition fits_uint64 :: "int \<Rightarrow> bool" where
  "fits_uint64 n \<longleftrightarrow> 0 \<le> n \<and> n \<le> 18446744073709551615"

fun IsNull :: "'d node \<Rightarrow> bool" where
  "IsNull JNull = True"
| "IsNull _ = False"

fun IsBool :: "'d node \<Rightarrow> bool" where
  "IsBool (JBool b) = True"
| "IsBool _ = False"

fun IsNumber :: "'d node \<Rightarrow> bool" where
  "IsNumber (JInt n) = True"
| "IsNumber (JDouble d) = True"
| "IsNumber _ = False"

fun IsInt :: "'d node \<Rightarrow> bool" where
  "IsInt (JInt n) = fits_int32 n"
| "IsInt _ = False"

fun IsUint :: "'d node \<Rightarrow> bool" where
  "IsUint (JInt n) = fits_uint32 n"
| "IsUint _ = False"

fun IsInt64 :: "'d node \<Rightarrow> bool" where
  "IsInt64 (JInt n) = fits_int64 n"
| "IsInt64 _ = False"

fun IsUint64 :: "'d node \<Rightarrow> bool" where
  "IsUint64 (JInt n) = fits_uint64 n"
| "IsUint64 _ = False"

fun IsDouble :: "'d node \<Rightarrow> bool" where
  "IsDouble (JDouble d) = True"
| "IsDouble _ = False"

fun IsString :: "'d node \<Rightarrow> bool" where
  "IsString (JString s) = True"
| "IsString _ = False"

fun IsArray :: "'d node \<Rightarrow> bool" where
  "IsArray (JArray xs) = True"
| "IsArray _ = False"

fun IsObject :: "'d node \<Rightarrow> bool" where
  "IsObject (JObject ms) = True"
| "IsObject _ = False"

subsection \<open>C strings\<close>

text \<open>
  \<^verbatim>\<open>GetString()\<close> returns a \<^verbatim>\<open>const char*\<close> to the buffer, which the library ends
  with a byte 0. Whatever reads that pointer as a C string (the constructor
  \<^verbatim>\<open>std::string(const char*)\<close>, \<^verbatim>\<open>strtol\<close>) sees the bytes before the first 0 only.
\<close>

definition NUL :: char where
  "NUL = CHR 0x00"

definition c_str :: "string \<Rightarrow> string" where
  "c_str s = takeWhile (\<lambda>c. c \<noteq> NUL) s"

subsection \<open>The integral target types of the accessor templates\<close>

datatype itype = Int8 | Int16 | Int32 | Int64 | UInt8 | UInt16 | UInt32 | UInt64

fun is_signed :: "itype \<Rightarrow> bool" where
  "is_signed Int8 = True"
| "is_signed Int16 = True"
| "is_signed Int32 = True"
| "is_signed Int64 = True"
| "is_signed _ = False"

fun sizeof :: "itype \<Rightarrow> nat" where
  "sizeof Int8 = 1"
| "sizeof UInt8 = 1"
| "sizeof Int16 = 2"
| "sizeof UInt16 = 2"
| "sizeof Int32 = 4"
| "sizeof UInt32 = 4"
| "sizeof Int64 = 8"
| "sizeof UInt64 = 8"

definition numeric_limits_min :: "itype \<Rightarrow> int" where
  "numeric_limits_min T = (if is_signed T then - (2 ^ (8 * sizeof T - 1)) else 0)"

definition numeric_limits_max :: "itype \<Rightarrow> int" where
  "numeric_limits_max T =
     (if is_signed T then 2 ^ (8 * sizeof T - 1) - 1 else 2 ^ (8 * sizeof T) - 1)"

definition static_cast :: "itype \<Rightarrow> int \<Rightarrow> int" where
  \<comment> \<open>conversion of an integer to the integral type \<open>T\<close>: the value modulo \<open>2^w\<close>\<close>
  "static_cast T n =
     (let w = 8 * sizeof T in
      if is_signed T then (n + 2 ^ (w - 1)) mod 2 ^ w - 2 ^ (w - 1) else n mod 2 ^ w)"

section \<open>The strict accessors: get\<close>

fun get_bool :: "'d node \<Rightarrow> bool option" where
  "get_bool (JBool b) = Some b"
| "get_bool _ = None"

fun get_char :: "'d node \<Rightarrow> char option" where
  "get_char (JString s) = (if length s = 1 then Some (s ! 0) else None)"
| "get_char _ = None"

fun get_signed64 :: "itype \<Rightarrow> 'd node \<Rightarrow> int option" where
  "get_signed64 T (JInt n) = (if fits_int64 n then Some (static_cast T n) else None)"
| "get_signed64 T _ = None"

fun get_signed_narrow :: "itype \<Rightarrow> 'd node \<Rightarrow> int option" where
  "get_signed_narrow T (JInt n) =
     (if fits_int32 n \<and> n \<ge> numeric_limits_min T \<and> n \<le> numeric_limits_max T
      then Some (static_cast T n) else None)"
| "get_signed_narrow T _ = None"

fun get_unsigned64 :: "itype \<Rightarrow> 'd node \<Rightarrow> int option" where
  "get_unsigned64 T (JInt n) = (if fits_uint64 n then Some (static_cast T n) else None)"
| "get_unsigned64 T _ = None"

fun get_unsigned_narrow :: "itype \<Rightarrow> 'd node \<Rightarrow> int option" where
  "get_unsigned_narrow T (JInt n) =
     (if fits_uint32 n \<and> n \<ge> numeric_limits_min T \<and> n \<le> numeric_limits_max T
      then Some (static_cast T n) else None)"
| "get_unsigned_narrow T _ = None"

definition get_integral :: "itype \<Rightarrow> 'd node \<Rightarrow> int option" where
  \<comment> \<open>the overload that \<^verbatim>\<open>enable_if\<close> selects for the integral type \<open>T\<close>\<close>
  "get_integral T N =
     (if is_signed T
      then (if sizeof T = 8 then get_signed64 T N else get_signed_narrow T N)
      else (if sizeof T = 8 then get_unsigned64 T N else get_unsigned_narrow T N))"

fun get_const_char :: "'d node \<Rightarrow> string option" where
  \<comment> \<open>the pointer to the buffer of a string\<close>
  "get_const_char (JString s) = Some s"
| "get_const_char _ = None"

fun get_string :: "'d node \<Rightarrow> string option" where
  "get_string (JString s) = Some s"
| "get_string _ = None"

section \<open>Numeric text parsing\<close>

subsection \<open>The conversion routines of the C library\<close>

text \<open>
  \<^verbatim>\<open>parse.h\<close> calls \<^verbatim>\<open>strtol\<close>, \<^verbatim>\<open>strtoul\<close> and \<^verbatim>\<open>strtod\<close>. The two integer
  routines are modelled after the C standard for base 10: they skip the characters that
  \<^verbatim>\<open>isspace\<close> accepts, take an optional sign and the longest run of decimal digits,
  and report where they stopped. Which characters are white space is a matter of the
  locale in effect (the category \<^verbatim>\<open>LC_CTYPE\<close>), so the classification is a
  parameter; \<open>isspace_C\<close> is the one of the "C" locale. The type \<^verbatim>\<open>long\<close> has 64 bits
  (LP64). A conversion returns the value, the offset of \<^verbatim>\<open>end\<close> from the start of
  the string, and whether \<^verbatim>\<open>errno\<close> was set to \<^verbatim>\<open>ERANGE\<close>.
\<close>

definition isspace_C :: "char \<Rightarrow> bool" where
  "isspace_C c \<longleftrightarrow> c \<in> set [CHR '' '', CHR 0x09, CHR 0x0A, CHR 0x0B, CHR 0x0C, CHR 0x0D]"

definition isdigit :: "char \<Rightarrow> bool" where
  "isdigit c \<longleftrightarrow> c \<in> set ''0123456789''"

definition digit_value :: "char \<Rightarrow> int" where
  "digit_value c = of_char c - 48"

definition decimal :: "string \<Rightarrow> int" where
  "decimal ds = foldl (\<lambda>acc c. acc * 10 + digit_value c) 0 ds"

definition LONG_MAX :: int where
  "LONG_MAX = 9223372036854775807"

definition LONG_MIN :: int where
  "LONG_MIN = - 9223372036854775808"

definition ULONG_MAX :: int where
  "ULONG_MAX = 18446744073709551615"

fun sign_prefix :: "string \<Rightarrow> bool \<times> string" where
  "sign_prefix [] = (False, [])"
| "sign_prefix (c # cs) =
     (if c = CHR ''-'' then (True, cs)
      else if c = CHR ''+'' then (False, cs)
      else (False, c # cs))"

definition strtol :: "(char \<Rightarrow> bool) \<Rightarrow> string \<Rightarrow> int \<times> nat \<times> bool" where
  "strtol isspace str =
     (let (neg, r) = sign_prefix (dropWhile isspace str);
          ds = takeWhile isdigit r;
          v = (if neg then - decimal ds else decimal ds);
          endp = length str - length (dropWhile isdigit r)
      in if ds = [] then (0, 0, False)
         else if v > LONG_MAX then (LONG_MAX, endp, True)
         else if v < LONG_MIN then (LONG_MIN, endp, True)
         else (v, endp, False))"

definition strtoul :: "(char \<Rightarrow> bool) \<Rightarrow> string \<Rightarrow> int \<times> nat \<times> bool" where
  \<comment> \<open>a minus sign negates the value in the type \<^verbatim>\<open>unsigned long\<close>\<close>
  "strtoul isspace str =
     (let (neg, r) = sign_prefix (dropWhile isspace str);
          ds = takeWhile isdigit r;
          v = decimal ds;
          endp = length str - length (dropWhile isdigit r)
      in if ds = [] then (0, 0, False)
         else if v > ULONG_MAX then (ULONG_MAX, endp, True)
         else ((if neg then (- v) mod (ULONG_MAX + 1) else v), endp, False))"

subsection \<open>detail::parse\<close>

text \<open>
  The source tests \<^verbatim>\<open>end != value_c_str\<close> (the offset is not 0) and
  \<^verbatim>\<open>'\0' == *end\<close>: the conversion stopped at the byte 0 that ends the C string
  of \<^verbatim>\<open>value\<close>, which is its first byte 0.
\<close>

definition parse_bool :: "(string \<Rightarrow> string) \<Rightarrow> string \<Rightarrow> bool option" where
  \<comment> \<open>\<^verbatim>\<open>common::lower_string\<close> is not part of the two files and is a parameter\<close>
  "parse_bool lower_string value =
     (if value \<noteq> [] then
        (let lower_value_string = lower_string value
         in if lower_value_string = ''true'' \<or> lower_value_string = ''false''
            then Some (''true'' = lower_value_string) else None)
      else None)"

definition parse_signed :: "(char \<Rightarrow> bool) \<Rightarrow> itype \<Rightarrow> string \<Rightarrow> int option" where
  "parse_signed isspace T value =
     (if value \<noteq> [] then
        (let value_c_str = c_str value;
             (lvalue, endp, err) = strtol isspace value_c_str
         in if endp \<noteq> 0 \<and> endp = length value_c_str
               \<and> lvalue \<le> numeric_limits_max T
               \<and> lvalue \<ge> numeric_limits_min T
               \<and> \<not> err
            then Some (static_cast T lvalue) else None)
      else None)"

definition parse_unsigned :: "(char \<Rightarrow> bool) \<Rightarrow> itype \<Rightarrow> string \<Rightarrow> int option" where
  "parse_unsigned isspace T value =
     (if value \<noteq> [] \<and> CHR ''-'' \<notin> set value then
        (let value_c_str = c_str value;
             (lvalue, endp, err) = strtoul isspace value_c_str
         in if endp \<noteq> 0 \<and> endp = length value_c_str
               \<and> lvalue \<le> numeric_limits_max T
               \<and> lvalue \<ge> numeric_limits_min T
               \<and> \<not> err
            then Some (static_cast T lvalue) else None)
      else None)"

definition parse_integral :: "(char \<Rightarrow> bool) \<Rightarrow> itype \<Rightarrow> string \<Rightarrow> int option" where
  \<comment> \<open>the overload that \<^verbatim>\<open>enable_if\<close> selects for the integral type \<open>T\<close>\<close>
  "parse_integral isspace T value =
     (if is_signed T then parse_signed isspace T value else parse_unsigned isspace T value)"


definition parse_default :: "'a option \<Rightarrow> 'a \<Rightarrow> 'a" where
  \<comment> \<open>\<^verbatim>\<open>parse(value, default_value)\<close>, given the result of \<^verbatim>\<open>parse<T>(value)\<close>\<close>
  "parse_default res default_value =
     (case res of None \<Rightarrow> default_value | Some r \<Rightarrow> r)"

section \<open>The permissive accessors: as\<close>

subsection \<open>std::to_string on integers\<close>

fun nat_digits :: "nat \<Rightarrow> string" where
  "nat_digits n =
     (if n < 10 then [''0123456789'' ! n]
      else nat_digits (n div 10) @ [''0123456789'' ! (n mod 10)])"

declare nat_digits.simps [simp del]

definition int_to_string :: "int \<Rightarrow> string" where
  "int_to_string n = (if n < 0 then CHR ''-'' # nat_digits (nat (- n)) else nat_digits (nat n))"

subsection \<open>as\<close>

text \<open>
  Each accessor asks \<^verbatim>\<open>IsInt\<close>, \<^verbatim>\<open>IsUint\<close>, \<^verbatim>\<open>IsInt64\<close>, \<^verbatim>\<open>IsUint64\<close> and
  \<^verbatim>\<open>IsDouble\<close> in this order and converts what the matching getter returns, which
  for an integral number is \<open>n\<close> in every branch. The conversion of a double
  (\<open>dcast\<close>, \<open>dstr\<close>) is a parameter.
\<close>

fun as_char :: "('d \<Rightarrow> char) \<Rightarrow> 'd node \<Rightarrow> char" where
  "as_char dcast (JInt n) =
     (if fits_int32 n then char_of n
      else if fits_uint32 n then char_of n
      else if fits_int64 n then char_of n
      else if fits_uint64 n then char_of n
      else CHR '' '')"
| "as_char dcast (JDouble d) = dcast d"
| "as_char dcast (JString s) = (if length s > 0 then s ! 0 else CHR '' '')"
| "as_char dcast _ = CHR '' ''"

fun as_integral :: "(char \<Rightarrow> bool) \<Rightarrow> (itype \<Rightarrow> 'd \<Rightarrow> int) \<Rightarrow> itype \<Rightarrow> 'd node \<Rightarrow> int" where
  "as_integral isspace dcast T (JInt n) =
     (if fits_int32 n then static_cast T n
      else if fits_uint32 n then static_cast T n
      else if fits_int64 n then static_cast T n
      else if fits_uint64 n then static_cast T n
      else 0)"
| "as_integral isspace dcast T (JDouble d) = dcast T d"
| "as_integral isspace dcast T (JBool b) = static_cast T (if b then 1 else 0)"
| "as_integral isspace dcast T (JString s) =
     \<comment> \<open>\<^verbatim>\<open>parse<T>(value_.GetString(), 0)\<close>: the argument is built from the pointer\<close>
     parse_default (parse_integral isspace T (c_str s)) 0"
| "as_integral isspace dcast T _ = 0"

fun as_bool :: "(string \<Rightarrow> string) \<Rightarrow> ('d \<Rightarrow> bool) \<Rightarrow> 'd node \<Rightarrow> bool" where
  \<comment> \<open>the arithmetic overload at \<^verbatim>\<open>bool\<close>: a number converts to whether it is not zero\<close>
  "as_bool lower_string dcast (JInt n) =
     (if fits_int32 n then n \<noteq> 0
      else if fits_uint32 n then n \<noteq> 0
      else if fits_int64 n then n \<noteq> 0
      else if fits_uint64 n then n \<noteq> 0
      else False)"
| "as_bool lower_string dcast (JDouble d) = dcast d"
| "as_bool lower_string dcast (JBool b) = b"
| "as_bool lower_string dcast (JString s) =
     parse_default (parse_bool lower_string (c_str s)) False"
| "as_bool lower_string dcast _ = False"


fun as_const_char :: "'d node \<Rightarrow> string option" where
  \<comment> \<open>the pointer to the buffer of a string, \<open>None\<close> for \<^verbatim>\<open>nullptr\<close>\<close>
  "as_const_char (JString s) = Some s"
| "as_const_char _ = None"

fun as_string :: "('d \<Rightarrow> string) \<Rightarrow> 'd node \<Rightarrow> string" where
  "as_string dstr (JInt n) =
     (if fits_int32 n then int_to_string n
      else if fits_uint32 n then int_to_string n
      else if fits_int64 n then int_to_string n
      else if fits_uint64 n then int_to_string n
      else [])"
| "as_string dstr (JDouble d) = dstr d"
| "as_string dstr (JBool b) = (if b then ''true'' else ''false'')"
| "as_string dstr (JString s) =
     \<comment> \<open>\<^verbatim>\<open>return value_.GetString();\<close> the result is built from the pointer\<close>
     c_str s"
| "as_string dstr _ = []"

section \<open>ArrayRef\<close>

datatype error =
    ValueRef_not_array
  | ValueRef_out_of_range
  | Array_out_of_range
  | ArrayRef_not_arrayType
  | ObjectRef_not_ObjectType

text \<open>
  Every error is a \<^verbatim>\<open>std::runtime_error\<close>; the constructor names the
  \<^verbatim>\<open>throw\<close> it comes from. An \<^verbatim>\<open>ArrayRef\<close> is a view of an array node and is
  modelled by the elements of that node; its constructor turns a null node into the
  empty array and refuses every other kind.
\<close>

fun ArrayRef :: "'d node \<Rightarrow> error + 'd node list" where
  "ArrayRef JNull = Inr []"
| "ArrayRef (JArray xs) = Inr xs"
| "ArrayRef _ = Inl ArrayRef_not_arrayType"

definition ArrayRef_subscript :: "'d node list \<Rightarrow> nat \<Rightarrow> error + 'd node" where
  "ArrayRef_subscript A index =
     (if index \<ge> length A then Inl Array_out_of_range else Inr (A ! index))"

fun ValueRef_subscript :: "'d node \<Rightarrow> nat \<Rightarrow> error + 'd node" where
  "ValueRef_subscript (JArray xs) idx =
     (if idx \<ge> length xs then Inl ValueRef_out_of_range
      else (case ArrayRef (JArray xs) of
              Inl e \<Rightarrow> Inl e
            | Inr A \<Rightarrow> ArrayRef_subscript A idx))"
| "ValueRef_subscript _ idx = Inl ValueRef_not_array"

fun get_vector_loop :: "('d node \<Rightarrow> 'a option) \<Rightarrow> 'a list \<Rightarrow> 'd node list \<Rightarrow> 'a list option" where
  "get_vector_loop get res [] = Some res"
| "get_vector_loop get res (v # vs) =
     (case get v of
        Some x \<Rightarrow> get_vector_loop get (res @ [x]) vs
      | None \<Rightarrow> None)"

definition get_vector :: "('d node \<Rightarrow> 'a option) \<Rightarrow> 'd node list \<Rightarrow> 'a list option" where
  \<comment> \<open>\<open>get\<close> is the instance \<^verbatim>\<open>get<T>\<close> of the strict accessor\<close>
  "get_vector get A = get_vector_loop get [] A"




section \<open>ObjectRef\<close>

text \<open>
  An \<^verbatim>\<open>ObjectRef\<close> is a view of an object node and is modelled by the members of
  that node. A member iterator is the position of a member, \<open>MemberEnd\<close> the position
  after the last one. \<^verbatim>\<open>FindMember\<close> returns the first member whose name has the
  bytes of the key, \<^verbatim>\<open>AddMember\<close> appends. A handle that the source builds from
  \<^verbatim>\<open>it->value\<close> is modelled by the position \<open>it\<close>.
\<close>

fun FindMember :: "(string \<times> 'd node) list \<Rightarrow> string \<Rightarrow> nat" where
  "FindMember [] name = 0"
| "FindMember (m # ms) name = (if fst m = name then 0 else Suc (FindMember ms name))"

definition MemberEnd :: "(string \<times> 'd node) list \<Rightarrow> nat" where
  "MemberEnd ms = length ms"

definition MemberCount :: "(string \<times> 'd node) list \<Rightarrow> nat" where
  "MemberCount ms = length ms"

definition AddMember :: "(string \<times> 'd node) list \<Rightarrow> string \<Rightarrow> 'd node \<Rightarrow> (string \<times> 'd node) list" where
  "AddMember ms name v = ms @ [(name, v)]"

definition ObjectRef_subscript ::
  "(string \<times> 'd node) list \<Rightarrow> string \<Rightarrow> (string \<times> 'd node) list \<times> nat" where
  \<comment> \<open>returns the members after the call and the position the handle refers to\<close>
  "ObjectRef_subscript ms name =
     (let it = FindMember ms name in
      if it = MemberEnd ms
      then (let ms' = AddMember ms name JNull in (ms', MemberEnd ms' - 1))
      else (ms, it))"

definition ObjectRef_find ::
  "(string \<times> 'd node) list \<Rightarrow> string \<Rightarrow> (string \<times> 'd node) list \<times> nat option" where
  \<comment> \<open>returns the members after the call (the function writes nothing) and the optional handle\<close>
  "ObjectRef_find ms name =
     (let it = FindMember ms name in
      if it \<noteq> MemberEnd ms then (ms, Some it) else (ms, None))"

section \<open>to_string\<close>

text \<open>
  The writer of the library is a parameter: \<open>writer N\<close> is the text it produces for
  the tree \<open>N\<close>, or \<open>None\<close> when \<^verbatim>\<open>Accept\<close> returns false.
  \<^verbatim>\<open>save_to_buffer\<close> assigns the buffer only when the writer succeeded, and
  \<^verbatim>\<open>to_string\<close> ignores what it returns. \<^verbatim>\<open>Value value(*this)\<close> is a deep copy
  of the node, the same tree.
\<close>

definition save_to_buffer ::
  "('d node \<Rightarrow> string option) \<Rightarrow> 'd node \<Rightarrow> string \<Rightarrow> bool \<times> string" where
  "save_to_buffer writer N buffer =
     (case writer N of Some text \<Rightarrow> (True, text) | None \<Rightarrow> (False, buffer))"

definition to_string ::
  "('d \<Rightarrow> string) \<Rightarrow> ('d node \<Rightarrow> string option) \<Rightarrow> 'd node \<Rightarrow> nat \<Rightarrow> string" where
  "to_string dstr writer N MAX_LENGTH_SIZE =
     (if IsNull N then ''Null''
      else if IsNumber N then
        (case N of
           JInt n \<Rightarrow>
             (if fits_int32 n then int_to_string n
              else if fits_uint32 n then int_to_string n
              else if fits_int64 n then int_to_string n
              else if fits_uint64 n then int_to_string n
              else [])
         | JDouble d \<Rightarrow> dstr d
         | _ \<Rightarrow> [])
      else if IsBool N then (case N of JBool b \<Rightarrow> if b then ''true'' else ''false'' | _ \<Rightarrow> [])
      else
        (let str = snd (save_to_buffer writer N []);
             str = (if length str > MAX_LENGTH_SIZE
                    then take MAX_LENGTH_SIZE str @ ''...'' else str)
         in str))"

section \<open>Properties of the strict accessors\<close>

lemma static_cast_in_range:
  "numeric_limits_min T \<le> n \<Longrightarrow> n \<le> numeric_limits_max T \<Longrightarrow> static_cast T n = n"
  by (cases T) (simp_all add: static_cast_def numeric_limits_min_def numeric_limits_max_def)

text \<open>
  C9. \<^verbatim>\<open>get<char>\<close> yields the character of a string node of exactly one byte, and
  nothing on a string of any other length (the empty one included) and on a node of any
  other kind.
\<close>

theorem get_char_single_byte:
  "get_char (JString [c]) = Some c
   \<and> (length s \<noteq> 1 \<longrightarrow> get_char (JString s) = None)
   \<and> (\<not> IsString N \<longrightarrow> get_char N = None)"
  by (cases N) simp_all

theorem get_char_single_byte_witness:
  "get_char (JString ''x'' :: unit node) = Some (CHR ''x'')
   \<and> length ([] :: string) \<noteq> 1 \<and> get_char (JString [] :: unit node) = None
   \<and> length ''ab'' \<noteq> (1::nat) \<and> get_char (JString ''ab'' :: unit node) = None
   \<and> \<not> IsString (JInt 65 :: unit node) \<and> get_char (JInt 65 :: unit node) = None"
  using get_char_single_byte [where c = "CHR ''x''" and s = "[]" and N = "JInt 65 :: unit node"]
        get_char_single_byte [where c = "CHR ''x''" and s = "''ab''" and N = "JInt 65 :: unit node"]
  by simp

text \<open>
  C6. For an integral type \<open>T\<close> of fewer than 8 bytes, \<^verbatim>\<open>get<T>\<close> yields \<open>v\<close>
  exactly when the node is a number of the matching family (\<^verbatim>\<open>IsInt\<close> for a signed
  \<open>T\<close>, \<^verbatim>\<open>IsUint\<close> for an unsigned one) whose value lies between the limits of \<open>T\<close>
  and is \<open>v\<close>. On 1000 \<^verbatim>\<open>get<int8_t>\<close> is empty, on 100 it is 100.
\<close>

theorem get_narrow_integral:
  "sizeof T < 8 \<Longrightarrow>
     (get_integral T N = Some v \<longleftrightarrow>
        (if is_signed T then IsInt N else IsUint N)
        \<and> (\<exists>n. N = JInt n \<and> numeric_limits_min T \<le> n \<and> n \<le> numeric_limits_max T \<and> v = n))"
  by (cases N) (auto simp: get_integral_def static_cast_in_range)

theorem get_narrow_integral_witness:
  "sizeof Int8 < 8
   \<and> get_integral Int8 (JInt 1000 :: unit node) = None
   \<and> get_integral Int8 (JInt 100 :: unit node) = Some 100
   \<and> get_integral UInt16 (JInt (- 1) :: unit node) = None"
proof -
  have a: "get_integral Int8 (JInt 100 :: unit node) = Some 100"
    using get_narrow_integral [of Int8 "JInt 100 :: unit node" 100]
    by (simp add: fits_int32_def numeric_limits_min_def numeric_limits_max_def)
  have b: "get_integral Int8 (JInt 1000 :: unit node) \<noteq> Some v" for v
    using get_narrow_integral [of Int8 "JInt 1000 :: unit node" v]
    by (simp add: fits_int32_def numeric_limits_min_def numeric_limits_max_def)
  have c: "get_integral UInt16 (JInt (- 1) :: unit node) \<noteq> Some v" for v
    using get_narrow_integral [of UInt16 "JInt (- 1) :: unit node" v]
    by (simp add: fits_uint32_def numeric_limits_min_def numeric_limits_max_def)
  from b have b': "get_integral Int8 (JInt 1000 :: unit node) = None"
    by (cases "get_integral Int8 (JInt 1000 :: unit node)") auto
  from c have c': "get_integral UInt16 (JInt (- 1) :: unit node) = None"
    by (cases "get_integral UInt16 (JInt (- 1) :: unit node)") auto
  from a b' c' show ?thesis by simp
qed

section \<open>Properties of the array view\<close>

text \<open>
  C5. Indexing an array at \<open>i\<close> with \<open>i \<ge> size\<close> throws, through the view and
  through the handle alike; with \<open>i < size\<close> it does not fail and designates the
  \<open>i\<close>-th element.
\<close>

theorem subscript_in_range_only:
  "(i \<ge> length A \<longrightarrow>
      ArrayRef_subscript A i = Inl Array_out_of_range
      \<and> ValueRef_subscript (JArray A) i = Inl ValueRef_out_of_range)
   \<and> (i < length A \<longrightarrow>
      ArrayRef_subscript A i = Inr (A ! i)
      \<and> ValueRef_subscript (JArray A) i = Inr (A ! i))"
  by (simp add: ArrayRef_subscript_def)

theorem subscript_in_range_only_witness:
  "(3::nat) \<ge> length [JInt 7, JNull, JBool True :: unit node]
   \<and> ArrayRef_subscript [JInt 7, JNull, JBool True :: unit node] 3 = Inl Array_out_of_range
   \<and> ValueRef_subscript (JArray [JInt 7, JNull, JBool True :: unit node]) 3
       = Inl ValueRef_out_of_range
   \<and> (2::nat) < length [JInt 7, JNull, JBool True :: unit node]
   \<and> ArrayRef_subscript [JInt 7, JNull, JBool True :: unit node] 2 = Inr (JBool True)
   \<and> ValueRef_subscript (JArray [JInt 7, JNull, JBool True :: unit node]) 2
       = Inr (JBool True)"
  using subscript_in_range_only [where i = 3 and A = "[JInt 7, JNull, JBool True :: unit node]"]
        subscript_in_range_only [where i = 2 and A = "[JInt 7, JNull, JBool True :: unit node]"]
  by simp

lemma get_vector_loop_all_or_nothing:
  "get_vector_loop get res A =
     (if \<forall>v \<in> set A. get v \<noteq> None then Some (res @ map (\<lambda>v. the (get v)) A) else None)"
  by (induction A arbitrary: res) (auto split: option.splits)

text \<open>
  C3. \<^verbatim>\<open>get_vector<T>\<close> is all or nothing: when \<^verbatim>\<open>get<T>\<close> yields a value on
  every element, the result is the list of these values in the order of the array; when
  it yields nothing on some element, the result is empty, whatever was collected before.
\<close>

theorem get_vector_all_or_nothing:
  "((\<forall>v \<in> set A. \<exists>x. get v = Some x) \<longrightarrow>
      get_vector get A = Some (map (\<lambda>v. the (get v)) A))
   \<and> ((\<exists>v \<in> set A. get v = None) \<longrightarrow> get_vector get A = None)"
  by (auto simp: get_vector_def get_vector_loop_all_or_nothing)

theorem get_vector_all_or_nothing_witness:
  "get_integral Int32 (JInt 1 :: unit node) = Some 1
   \<and> get_integral Int32 (JInt 2 :: unit node) = Some 2
   \<and> get_integral Int32 (JInt 3 :: unit node) = Some 3
   \<and> get_vector (get_integral Int32) [JInt 1, JInt 2, JInt 3 :: unit node] = Some [1, 2, 3]
   \<and> get_integral Int32 (JString ''x'' :: unit node) = None
   \<and> get_vector (get_integral Int32) [JInt 1, JString ''x'', JInt 3 :: unit node] = None"
  using get_vector_all_or_nothing
          [where A = "[JInt 1, JInt 2, JInt 3 :: unit node]" and get = "get_integral Int32"]
        get_vector_all_or_nothing
          [where A = "[JInt 1, JString ''x'', JInt 3 :: unit node]" and get = "get_integral Int32"]
  by (simp add: get_integral_def fits_int32_def numeric_limits_min_def numeric_limits_max_def
      static_cast_def)

section \<open>Properties of the object view\<close>

lemma FindMember_absent:
  "name \<notin> fst ` set ms \<Longrightarrow> FindMember ms name = length ms"
  by (induction ms) auto

text \<open>
  C2. When no member of an object has the name \<open>name\<close>, \<^verbatim>\<open>operator[]\<close> appends the
  member (\<open>name\<close>, null), so that the member count grows by exactly one, and returns
  a handle to this new, last member; \<^verbatim>\<open>find\<close> on the same members leaves them and
  their count as they are and returns the empty optional.
\<close>

theorem subscript_inserts_find_does_not:
  assumes "name \<notin> fst ` set ms"
  shows "ObjectRef_subscript ms name = (ms @ [(name, JNull)], length ms)
         \<and> MemberCount (fst (ObjectRef_subscript ms name)) = MemberCount ms + 1
         \<and> fst (ObjectRef_subscript ms name) ! snd (ObjectRef_subscript ms name) = (name, JNull)
         \<and> ObjectRef_find ms name = (ms, None)
         \<and> MemberCount (fst (ObjectRef_find ms name)) = MemberCount ms"
  using FindMember_absent [OF assms]
  by (simp add: ObjectRef_subscript_def ObjectRef_find_def MemberEnd_def MemberCount_def
      AddMember_def)

theorem subscript_inserts_find_does_not_witness:
  "''missing_key'' \<notin> fst ` set ([] :: (string \<times> unit node) list)
   \<and> ObjectRef_subscript ([] :: (string \<times> unit node) list) ''missing_key''
       = ([(''missing_key'', JNull)], 0)
   \<and> ObjectRef_find ([] :: (string \<times> unit node) list) ''missing_key'' = ([], None)
   \<and> ''b'' \<notin> fst ` set [(''a'', JInt 1 :: unit node)]
   \<and> ObjectRef_subscript [(''a'', JInt 1 :: unit node)] ''b''
       = ([(''a'', JInt 1), (''b'', JNull)], 1)"
  using subscript_inserts_find_does_not
          [where name = "''missing_key''" and ms = "[] :: (string \<times> unit node) list"]
        subscript_inserts_find_does_not
          [where name = "''b''" and ms = "[(''a'', JInt 1 :: unit node)]"]
  by simp

section \<open>Properties of the text parser\<close>

lemma c_str_no_NUL: "NUL \<notin> set s \<Longrightarrow> c_str s = s"
  by (auto simp: c_str_def takeWhile_eq_all_conv)





























text \<open>
  C10. The parser for an unsigned type returns no value for every text that holds a minus
  sign anywhere, although \<^verbatim>\<open>strtoul\<close> itself converts such a text: it negates the
  number in \<^verbatim>\<open>unsigned long\<close>, so that \<open>-2\<close> becomes \<open>2^64 - 2\<close>.
\<close>

theorem parse_unsigned_rejects_minus:
  "(CHR ''-'' \<in> set s \<longrightarrow> parse_unsigned isspace T s = None)
   \<and> strtoul isspace_C ''-2'' = (18446744073709551614, 2, False)"
  by (simp add: parse_unsigned_def strtoul_def isspace_C_def isdigit_def decimal_def
      digit_value_def ULONG_MAX_def)

theorem parse_unsigned_rejects_minus_witness:
  "CHR ''-'' \<in> set ''-2''
   \<and> parse_unsigned isspace_C UInt64 ''-2'' = None
   \<and> CHR ''-'' \<in> set ''1-''
   \<and> parse_unsigned isspace_C UInt8 ''1-'' = None"
  using parse_unsigned_rejects_minus [where isspace = isspace_C and T = UInt64 and s = "''-2''"]
        parse_unsigned_rejects_minus [where isspace = isspace_C and T = UInt8 and s = "''1-''"]
  by simp

section \<open>Properties of the lenient conversion of an array\<close>










section \<open>The strict and the permissive accessor compared\<close>

text \<open>
  Where \<^verbatim>\<open>get<T>\<close> yields a value, \<^verbatim>\<open>as<T>\<close> returns the same value for
  \<^verbatim>\<open>char\<close>, \<^verbatim>\<open>bool\<close>, the integral types and \<^verbatim>\<open>const char*\<close>. For
  \<^verbatim>\<open>std::string\<close> it returns the C string of the buffer: \<^verbatim>\<open>as\<close> builds the
  result from the pointer alone, \<^verbatim>\<open>get\<close> from the pointer and the length.
\<close>

lemma get_as_char: "get_char N = Some c \<Longrightarrow> as_char dcast N = c"
  by (cases N) (auto split: if_splits)

lemma get_as_bool: "get_bool N = Some b \<Longrightarrow> as_bool lower_string dcast N = b"
  by (cases N) auto

lemma get_as_integral: "get_integral T N = Some v \<Longrightarrow> as_integral isspace dcast T N = v"
  by (cases N) (auto simp: get_integral_def split: if_splits)

lemma get_as_const_char: "get_const_char N = Some p \<Longrightarrow> as_const_char N = Some p"
  by (cases N) auto

lemma get_as_string: "get_string N = Some s \<Longrightarrow> as_string dstr N = c_str s"
  by (cases N) auto

lemma get_as_string_no_NUL:
  "get_string N = Some s \<Longrightarrow> NUL \<notin> set s \<Longrightarrow> as_string dstr N = s"
  by (simp add: get_as_string c_str_no_NUL)

text \<open>
  C1 at the string node of the three bytes \<open>a\<close>, 0, \<open>b\<close>: \<^verbatim>\<open>get<std::string>\<close>
  yields the three bytes, \<^verbatim>\<open>as<std::string>\<close> returns the one byte \<open>a\<close>.
\<close>

theorem as_string_stops_at_NUL:
  "get_string (JString [CHR ''a'', NUL, CHR ''b'']) = Some [CHR ''a'', NUL, CHR ''b'']
   \<and> as_string dstr (JString [CHR ''a'', NUL, CHR ''b'']) = ''a''
   \<and> as_string dstr (JString [CHR ''a'', NUL, CHR ''b'']) \<noteq> [CHR ''a'', NUL, CHR ''b'']"
  by (simp add: c_str_def NUL_def)

section \<open>Properties of to_string\<close>

lemma int_to_string_example: "int_to_string (- 1203) = ''-1203''"
  by (simp add: int_to_string_def nat_digits.simps [of 1203] nat_digits.simps [of 120]
      nat_digits.simps [of 12] nat_digits.simps [of "Suc 0"])

text \<open>
  C8, as amended. \<^verbatim>\<open>to_string(max_len)\<close> returns \<open>Null\<close> for null, \<open>true\<close> or
  \<open>false\<close> for a boolean and the decimal text of a number (for a double, what
  \<^verbatim>\<open>std::to_string\<close> gives), each of them whole whatever \<open>max_len\<close> is. For a
  string, an array and an object it returns the text of the writer (the empty text when
  the writer fails), cut to its first \<open>max_len\<close> bytes followed by three dots when it
  is longer than \<open>max_len\<close>.
\<close>

theorem to_string_renders:
  "to_string dstr writer JNull m = ''Null''
   \<and> to_string dstr writer (JBool b) m = (if b then ''true'' else ''false'')
   \<and> (fits_int64 n \<or> fits_uint64 n \<longrightarrow> to_string dstr writer (JInt n) m = int_to_string n)
   \<and> to_string dstr writer (JDouble d) m = dstr d
   \<and> (IsString N \<or> IsArray N \<or> IsObject N \<longrightarrow>
        to_string dstr writer N m =
          (let str = (case writer N of Some t \<Rightarrow> t | None \<Rightarrow> [])
           in if length str > m then take m str @ ''...'' else str))"
proof -
  have "IsString N \<or> IsArray N \<or> IsObject N \<longrightarrow>
        to_string dstr writer N m =
          (let str = (case writer N of Some t \<Rightarrow> t | None \<Rightarrow> [])
           in if length str > m then take m str @ ''...'' else str)"
    by (cases N) (simp_all add: to_string_def save_to_buffer_def Let_def split: option.splits)
  moreover have "fits_int64 n \<or> fits_uint64 n \<longrightarrow> to_string dstr writer (JInt n) m = int_to_string n"
    by (simp add: to_string_def)
  ultimately show ?thesis by (simp add: to_string_def)
qed

theorem to_string_renders_witness:
  "to_string (\<lambda>d::unit. []) (\<lambda>N. Some ''[1,2,3,4]'') (JInt 3000000000) 3
       = int_to_string 3000000000
   \<and> to_string (\<lambda>d::unit. []) (\<lambda>N. Some ''[1,2,3,4]'') (JArray [JInt 1, JInt 2, JInt 3, JInt 4]) 3
       = ''[1,...''
   \<and> to_string (\<lambda>d::unit. []) (\<lambda>N. Some ''[1,2,3,4]'') (JArray [JInt 1, JInt 2, JInt 3, JInt 4]) 9
       = ''[1,2,3,4]''"
proof -
  have f: "fits_int64 3000000000 \<or> fits_uint64 3000000000" by (simp add: fits_int64_def)
  have k: "IsString (JArray [JInt 1, JInt 2, JInt 3, JInt 4 :: unit node])
     \<or> IsArray (JArray [JInt 1, JInt 2, JInt 3, JInt 4 :: unit node])
     \<or> IsObject (JArray [JInt 1, JInt 2, JInt 3, JInt 4 :: unit node])" by simp
  note t3 = to_string_renders [where dstr = "\<lambda>d::unit. []" and writer = "\<lambda>N. Some ''[1,2,3,4]''"
      and n = 3000000000 and m = 3 and N = "JArray [JInt 1, JInt 2, JInt 3, JInt 4]"]
  note t9 = to_string_renders [where dstr = "\<lambda>d::unit. []" and writer = "\<lambda>N. Some ''[1,2,3,4]''"
      and n = 3000000000 and m = 9 and N = "JArray [JInt 1, JInt 2, JInt 3, JInt 4]"]
  from t3 f have a: "to_string (\<lambda>d::unit. []) (\<lambda>N. Some ''[1,2,3,4]'') (JInt 3000000000) 3
      = int_to_string 3000000000" by blast
  from t3 k have b: "to_string (\<lambda>d::unit. []) (\<lambda>N. Some ''[1,2,3,4]'')
      (JArray [JInt 1, JInt 2, JInt 3, JInt 4]) 3 = ''[1,...''" by simp
  from t9 k have c: "to_string (\<lambda>d::unit. []) (\<lambda>N. Some ''[1,2,3,4]'')
      (JArray [JInt 1, JInt 2, JInt 3, JInt 4]) 9 = ''[1,2,3,4]''" by simp
  from a b c show ?thesis by (intro conjI)
qed

text \<open>
  Where C8 as stated fails: with \<open>max_len = 2\<close> the renderings \<open>Null\<close>, \<open>false\<close>
  and \<open>-1203\<close> of a null, a boolean and a number are longer than \<open>max_len\<close> and
  are returned whole.
\<close>

theorem to_string_scalar_not_truncated_counterexample:
  "length ''Null'' > (2::nat)
   \<and> to_string (\<lambda>d::unit. []) (\<lambda>N. Some ''null'') JNull 2 = ''Null''
   \<and> to_string (\<lambda>d::unit. []) (\<lambda>N. Some ''null'') JNull 2 \<noteq> take 2 ''Null'' @ ''...''
   \<and> to_string (\<lambda>d::unit. []) (\<lambda>N. Some ''false'') (JBool False) 2 = ''false''
   \<and> to_string (\<lambda>d::unit. []) (\<lambda>N. Some ''1203'') (JInt (- 1203)) 2 = ''-1203''"
  by (simp add: to_string_def fits_int32_def int_to_string_example)

end
